theory Spec2Isabelle
  imports Complex_Main "HOL-Library.Sublist"
begin

section \<open>Values exchanged with the client and the store\<close>

text \<open>
  The service of \<^verbatim>\<open>main.py\<close> is a set of request handlers over two collections of a
  document store. Python's \<^verbatim>\<open>float\<close> is modelled by the real number it denotes and
  its addition by exact addition: the rounding of IEEE arithmetic is not part of this
  model. A \<^verbatim>\<open>datetime\<close> is a clock reading, a natural number. Dictionaries that are
  returned to the client are JSON objects: association lists in the order of the dict
  literal of the source.
\<close>

type_synonym datetime = nat

datatype json =
    JNull
  | JStr string
  | JInt int
  | JNum real
  | JTime datetime
  | JList "json list"
  | JObj "(string \<times> json) list"

fun keys :: "json \<Rightarrow> string list" where
  "keys (JObj kvs) = map fst kvs"
| "keys _ = []"

fun get :: "json \<Rightarrow> string \<Rightarrow> json option" where
  "get (JObj kvs) k = map_of kvs k"
| "get _ k = None"

subsection \<open>Exceptions\<close>

text \<open>
  Every exception carries its message, the text that \<^verbatim>\<open>str(e)\<close> returns.
  \<^verbatim>\<open>HTTPException\<close> is the one the handlers raise themselves; the others are raised by
  the libraries they call: \<^verbatim>\<open>InvalidId\<close> by \<^verbatim>\<open>ObjectId(...)\<close>, \<^verbatim>\<open>ValueError\<close> by
  \<^verbatim>\<open>Cursor.skip\<close>, \<^verbatim>\<open>OperationFailure\<close> by a query that the store refuses;
  \<^verbatim>\<open>Exception\<close> stands for an exception of any other class.
\<close>

datatype exn =
    HTTPException (status_code: int) (detail: string)
  | InvalidId string
  | ValueError string
  | OperationFailure string
  | Exception string

fun digit_char :: "nat \<Rightarrow> char" where
  "digit_char n = ''0123456789'' ! (n mod 10)"

fun str_nat :: "nat \<Rightarrow> string" where
  "str_nat n = (if n < 10 then [digit_char n] else str_nat (n div 10) @ [digit_char n])"

declare str_nat.simps [simp del]

definition str_int :: "int \<Rightarrow> string" where
  "str_int i = (if i < 0 then CHR ''-'' # str_nat (nat (- i)) else str_nat (nat i))"

fun str_exn :: "exn \<Rightarrow> string" where
  "str_exn (HTTPException c d) = str_int c @ '': '' @ d"
| "str_exn (InvalidId m) = m"
| "str_exn (ValueError m) = m"
| "str_exn (OperationFailure m) = m"
| "str_exn (Exception m) = m"



subsection \<open>Store identifiers\<close>

text \<open>
  An \<^verbatim>\<open>ObjectId\<close> is twelve bytes; \<open>Oid h\<close> holds them as the 24 lower-case
  hexadecimal digits that \<^verbatim>\<open>str(oid)\<close> prints. \<^verbatim>\<open>ObjectId(s)\<close> on a \<^verbatim>\<open>str\<close> accepts
  the strings of 24 hexadecimal digits, in either case, and raises \<^verbatim>\<open>InvalidId\<close> on
  every other string. (The library decodes the digits with a decoder that skips blanks;
  a string of 24 characters with blanks among them counts as malformed here.) The
  message of \<^verbatim>\<open>InvalidId\<close> quotes the string between apostrophes.
\<close>

datatype oid = Oid string

fun str_oid :: "oid \<Rightarrow> string" where
  "str_oid (Oid h) = h"

definition lower :: "char \<Rightarrow> char" where
  "lower c = (case map_of (zip ''ABCDEFGHIJKLMNOPQRSTUVWXYZ'' ''abcdefghijklmnopqrstuvwxyz'') c of
                Some d \<Rightarrow> d | None \<Rightarrow> c)"

definition hex_digit :: "char \<Rightarrow> bool" where
  "hex_digit c = (c \<in> set ''0123456789abcdefABCDEF'')"

definition invalid_id_message :: "string \<Rightarrow> string" where
  "invalid_id_message s =
     [CHR 0x27] @ s @ [CHR 0x27] @
     '' is not a valid ObjectId, it must be a 12-byte input or a 24-character hex string''"

definition ObjectId :: "string \<Rightarrow> exn + oid" where
  "ObjectId s =
     (if length s = 24 \<and> list_all hex_digit s then Inr (Oid (map lower s))
      else Inl (InvalidId (invalid_id_message s)))"

section \<open>The pydantic models and the stored documents\<close>

record ProductSize =
  psize :: string
  quantity :: int

record ProductRequest =
  name :: string
  price :: real
  description :: "string option"
  sizes :: "ProductSize list"

record OrderItem =
  product_id :: string
  bought_quantity :: int
  total_amount :: real

record OrderRequest =
  user_id :: string
  items :: "OrderItem list"
  user_address :: string

text \<open>
  What the handlers hand to \<^verbatim>\<open>insert_one\<close>: \<^verbatim>\<open>product.dict()\<close> with the key
  \<^verbatim>\<open>created_at\<close>, and \<^verbatim>\<open>order.dict()\<close> with the keys \<^verbatim>\<open>timestamp\<close> and
  \<^verbatim>\<open>total_amount\<close>. The stored document has the key \<^verbatim>\<open>_id\<close> in addition.
\<close>

record product_dict = ProductRequest +
  created_at :: datetime

record product_doc = product_dict +
  product_oid :: oid

record order_dict = OrderRequest +
  timestamp :: datetime
  order_total_amount :: real

record order_doc = order_dict +
  order_oid :: oid

section \<open>The document store\<close>

text \<open>
  The database \<^verbatim>\<open>db\<close>: the collections \<^verbatim>\<open>db.products\<close> and \<^verbatim>\<open>db.orders\<close>, each in
  insertion order, which is the order a query without a sort returns. The store of this
  model does not lose its connection: the exceptions it raises are those that the
  arguments of a call determine.
\<close>

record store =
  products :: "product_doc list"
  orders :: "order_doc list"

record InsertOneResult =
  inserted_id :: "oid option"


definition insert_one_order :: "oid \<Rightarrow> order_dict \<Rightarrow> store \<Rightarrow> InsertOneResult \<times> store" where
  "insert_one_order new_id d db =
     (\<lparr>inserted_id = Some new_id\<rparr>,
      db\<lparr>orders := orders db @
            [\<lparr>user_id = user_id d, items = items d, user_address = user_address d,
              timestamp = timestamp d, order_total_amount = order_total_amount d,
              order_oid = new_id\<rparr>]\<rparr>)"

text \<open>\<^verbatim>\<open>db.products.find_one({"_id": i})\<close>: the first product stored under \<open>i\<close>, if any.\<close>

definition find_one :: "product_doc list \<Rightarrow> oid \<Rightarrow> product_doc option" where
  "find_one coll i = find (\<lambda>p. product_oid p = i) coll"

subsection \<open>Queries\<close>

text \<open>
  The operator \<^verbatim>\<open>{"$regex": pat, "$options": "i"}\<close> is evaluated by the store's regular
  expression engine, which is not code of the service: the handlers take it as a
  parameter. Applied to a pattern it raises (the store refuses the pattern) or gives the
  test "the pattern has a match somewhere in this text, letter case ignored".
\<close>

type_synonym regex_engine = "string \<Rightarrow> exn + (string \<Rightarrow> bool)"

text \<open>
  The dict \<^verbatim>\<open>query_filter\<close> of \<^verbatim>\<open>list_products\<close> has at most the keys \<^verbatim>\<open>"name"\<close> (always
  with a case-insensitive \<^verbatim>\<open>$regex\<close>) and \<^verbatim>\<open>"sizes.size"\<close> (a plain value, which a
  document meets when some element of its array \<^verbatim>\<open>sizes\<close> has exactly that \<^verbatim>\<open>size\<close>).
\<close>

record query_filter =
  name_regex_i :: "string option"
  sizes_size :: "string option"

definition has_size :: "string option \<Rightarrow> product_doc \<Rightarrow> bool" where
  "has_size s p = (case s of None \<Rightarrow> True | Some v \<Rightarrow> list_ex (\<lambda>e. psize e = v) (sizes p))"

definition compile_filter :: "regex_engine \<Rightarrow> query_filter \<Rightarrow> exn + (product_doc \<Rightarrow> bool)" where
  "compile_filter rx qf =
     (case name_regex_i qf of
        None \<Rightarrow> Inr (\<lambda>p. has_size (sizes_size qf) p)
      | Some pat \<Rightarrow>
          (case rx pat of
             Inl e \<Rightarrow> Inl e
           | Inr m \<Rightarrow> Inr (\<lambda>p. m (name p) \<and> has_size (sizes_size qf) p)))"

text \<open>
  A cursor holds the query until it is iterated. \<^verbatim>\<open>skip\<close> raises \<^verbatim>\<open>ValueError\<close> on a
  negative count, at once. \<^verbatim>\<open>limit(0)\<close> is no limit; a negative limit counts as its
  absolute value.
\<close>

record 'd cursor =
  collection :: "'d list"
  selector :: "exn + ('d \<Rightarrow> bool)"
  skip_count :: int
  limit_count :: int

definition find_cursor :: "'d list \<Rightarrow> exn + ('d \<Rightarrow> bool) \<Rightarrow> 'd cursor" where
  "find_cursor coll sel = \<lparr>collection = coll, selector = sel, skip_count = 0, limit_count = 0\<rparr>"

definition cursor_skip :: "int \<Rightarrow> 'd cursor \<Rightarrow> exn + 'd cursor" where
  "cursor_skip n c =
     (if n < 0 then Inl (ValueError ''skip must be >= 0'') else Inr (c\<lparr>skip_count := n\<rparr>))"

definition cursor_limit :: "int \<Rightarrow> 'd cursor \<Rightarrow> 'd cursor" where
  "cursor_limit n c = c\<lparr>limit_count := n\<rparr>"

definition apply_limit :: "int \<Rightarrow> 'd list \<Rightarrow> 'd list" where
  "apply_limit n xs = (if n = 0 then xs else take (nat \<bar>n\<bar>) xs)"

definition iterate :: "'d cursor \<Rightarrow> exn + 'd list" where
  "iterate c =
     (case selector c of
        Inl e \<Rightarrow> Inl e
      | Inr sel \<Rightarrow>
          Inr (apply_limit (limit_count c) (drop (nat (skip_count c)) (filter sel (collection c)))))"

section \<open>Helper functions\<close>

definition size_json :: "ProductSize \<Rightarrow> json" where
  "size_json s = JObj [(''size'', JStr (psize s)), (''quantity'', JInt (quantity s))]"


definition product_helper :: "product_doc \<Rightarrow> json" where
  "product_helper product =
     JObj [(''product_id'', JStr (str_oid (product_oid product))),
           (''name'', JStr (name product)),
           (''price'', JNum (price product)),
           (''description'', (case description product of None \<Rightarrow> JNull | Some d \<Rightarrow> JStr d)),
           (''sizes'', JList (map size_json (sizes product)))]"


section \<open>API endpoints\<close>

text \<open>
  A handler returns its value (\<open>Inr\<close>) or raises (\<open>Inl\<close>), and returns the store as it
  leaves it. The two shapes of \<^verbatim>\<open>except\<close> clauses of the source:
\<close>

definition except_Exception :: "exn + 'a \<Rightarrow> exn + 'a" where
  "except_Exception r =
     (case r of Inl e \<Rightarrow> Inl (HTTPException 500 (str_exn e)) | Inr v \<Rightarrow> Inr v)"

definition except_HTTPException_Exception :: "exn + 'a \<Rightarrow> exn + 'a" where
  "except_HTTPException_Exception r =
     (case r of
        Inl (HTTPException c d) \<Rightarrow> Inl (HTTPException c d)
      | Inl e \<Rightarrow> Inl (HTTPException 500 (str_exn e))
      | Inr v \<Rightarrow> Inr v)"

text \<open>\<^verbatim>\<open>if x:\<close> on an \<^verbatim>\<open>Optional[str]\<close>: neither \<^verbatim>\<open>None\<close> nor the empty string.\<close>

definition truthy :: "string option \<Rightarrow> bool" where
  "truthy x = (case x of None \<Rightarrow> False | Some s \<Rightarrow> s \<noteq> [])"

subsection \<open>\<^verbatim>\<open>POST /products\<close>\<close>



subsection \<open>\<^verbatim>\<open>GET /products\<close>\<close>

definition build_query_filter :: "string option \<Rightarrow> string option \<Rightarrow> query_filter" where
  "build_query_filter name' size' =
     (let qf = \<lparr>name_regex_i = None, sizes_size = None\<rparr>;
          qf = (if truthy name' then qf\<lparr>name_regex_i := name'\<rparr> else qf);
          qf = (if truthy size' then qf\<lparr>sizes_size := size'\<rparr> else qf)
      in qf)"

definition list_products ::
  "regex_engine \<Rightarrow> string option \<Rightarrow> string option \<Rightarrow> int \<Rightarrow> int \<Rightarrow> store \<Rightarrow> exn + json" where
  "list_products rx name' size' limit offset db =
     except_Exception
       (let query_filter = build_query_filter name' size'
        in case cursor_skip offset (find_cursor (products db) (compile_filter rx query_filter)) of
             Inl e \<Rightarrow> Inl e
           | Inr c \<Rightarrow>
               (case iterate (cursor_limit limit c) of
                  Inl e \<Rightarrow> Inl e
                | Inr ps \<Rightarrow> Inr (JObj [(''products'', JList (map product_helper ps))])))"

subsection \<open>\<^verbatim>\<open>POST /orders\<close>\<close>

text \<open>
  The loop over \<^verbatim>\<open>order.items\<close>: it stops at the first item that raises. A document
  that \<^verbatim>\<open>find_one\<close> returns has a key \<^verbatim>\<open>_id\<close> and is truthy, so \<^verbatim>\<open>not product\<close> holds
  exactly when \<^verbatim>\<open>find_one\<close> returns \<^verbatim>\<open>None\<close>.
\<close>

fun check_items :: "store \<Rightarrow> OrderItem list \<Rightarrow> exn + unit" where
  "check_items db [] = Inr ()"
| "check_items db (item # rest) =
     (case ObjectId (product_id item) of
        Inl e \<Rightarrow> Inl e
      | Inr i \<Rightarrow>
          (case find_one (products db) i of
             None \<Rightarrow> Inl (HTTPException 400 (''Product '' @ product_id item @ '' not found''))
           | Some product \<Rightarrow> check_items db rest))"

text \<open>\<^verbatim>\<open>sum\<close> adds from the left, starting at 0.\<close>

definition py_sum :: "real list \<Rightarrow> real" where
  "py_sum xs = foldl (+) 0 xs"

definition create_order_try :: "datetime \<Rightarrow> oid \<Rightarrow> OrderRequest \<Rightarrow> store \<Rightarrow> (exn + json) \<times> store" where
  "create_order_try now new_id order db =
     (case check_items db (items order) of
        Inl e \<Rightarrow> (Inl e, db)
      | Inr u \<Rightarrow>
          (let amount = py_sum (map total_amount (items order));
               d = \<lparr>user_id = user_id order, items = items order,
                     user_address = user_address order,
                     timestamp = now, order_total_amount = amount\<rparr>;
               (result, db') = insert_one_order new_id d db
           in case inserted_id result of
                Some i \<Rightarrow> (Inr (JObj [(''id'', JStr (str_oid i))]), db')
              | None \<Rightarrow> (Inl (HTTPException 500 ''Failed to create order''), db')))"

definition create_order :: "datetime \<Rightarrow> oid \<Rightarrow> OrderRequest \<Rightarrow> store \<Rightarrow> (exn + json) \<times> store" where
  "create_order now new_id order db =
     (let (r, db') = create_order_try now new_id order db
      in (except_HTTPException_Exception r, db'))"

subsection \<open>\<^verbatim>\<open>GET /orders/{user_id}\<close>\<close>


subsection \<open>\<^verbatim>\<open>GET /\<close> and \<^verbatim>\<open>GET /health\<close>\<close>

definition root :: "exn + json" where
  "root = Inr (JObj [(''message'', JStr ''Ecommerce Backend API is running'')])"


subsection \<open>The response on the wire\<close>



section \<open>A regular expression engine for plain patterns\<close>

text \<open>
  A stand-in for the store's engine on the patterns built from ordinary characters and
  the dot: an ordinary character matches itself in either letter case, the dot matches
  any character but the line feed, and the pattern may match anywhere in the text. It
  refuses every pattern with another metacharacter, which the store may well accept: it
  models the store on plain patterns only, and nothing below applies it to another.
\<close>

datatype atom = Lit char | Dot

definition metachars :: string where
  "metachars = CHR 0x5C # ''^$.|?*+()[]{}''"


definition atom_of :: "char \<Rightarrow> atom" where
  "atom_of c = (if c = CHR ''.'' then Dot else Lit c)"

fun atom_matches :: "atom \<Rightarrow> char \<Rightarrow> bool" where
  "atom_matches (Lit c) d = (lower c = lower d)"
| "atom_matches Dot d = (d \<noteq> CHR 0x0A)"

fun match_here :: "atom list \<Rightarrow> string \<Rightarrow> bool" where
  "match_here [] s = True"
| "match_here (a # as) [] = False"
| "match_here (a # as) (d # ds) = (atom_matches a d \<and> match_here as ds)"

fun search :: "atom list \<Rightarrow> string \<Rightarrow> bool" where
  "search as [] = match_here as []"
| "search as (d # ds) = (match_here as (d # ds) \<or> search as ds)"

definition regex_fragment :: regex_engine where
  "regex_fragment pat =
     (if list_ex (\<lambda>c. c \<in> set metachars \<and> c \<noteq> CHR ''.'') pat
      then Inl (OperationFailure ''pattern outside the modelled fragment'')
      else Inr (search (map atom_of pat)))"

section \<open>The wording of the specification\<close>

text \<open>
  An item's \<^verbatim>\<open>product_id\<close> corresponds to an existing product: it converts to an
  identifier and a product is stored under it.
\<close>

definition refers_to_product :: "store \<Rightarrow> OrderItem \<Rightarrow> bool" where
  "refers_to_product db item =
     (case ObjectId (product_id item) of
        Inl e \<Rightarrow> False
      | Inr i \<Rightarrow> find_one (products db) i \<noteq> None)"



text \<open>The fields of the Product data model, under the names the service uses.\<close>

definition product_model_fields :: "string list" where
  "product_model_fields =
     [''product_id'', ''name'', ''price'', ''description'', ''sizes'', ''created_at'']"

section \<open>Example data\<close>

text \<open>A shop with one product, and the requests the examples below send to it.\<close>

definition tee :: product_doc where
  "tee = \<lparr>name = ''Tee'', price = 1999 / 100, description = None,
          sizes = [\<lparr>psize = ''M'', quantity = 5\<rparr>], created_at = 7,
          product_oid = Oid ''0123456789abcdef01234567''\<rparr>"

definition shop :: store where
  "shop = \<lparr>products = [tee], orders = []\<rparr>"

definition new_oid :: oid where
  "new_oid = Oid ''aaaaaaaaaaaaaaaaaaaaaaaa''"

definition item_of :: "string \<Rightarrow> OrderItem" where
  "item_of pid = \<lparr>product_id = pid, bought_quantity = 2, total_amount = 3998 / 100\<rparr>"

definition order_of :: "OrderItem list \<Rightarrow> OrderRequest" where
  "order_of its = \<lparr>user_id = ''u1'', items = its, user_address = ''1 Main St''\<rparr>"





section \<open>Creating orders\<close>

subsection \<open>The existence checks and the total\<close>






lemmas example_defs = tee_def shop_def new_oid_def item_of_def order_of_def

lemmas order_defs = create_order_def create_order_try_def except_HTTPException_Exception_def
  insert_one_order_def py_sum_def refers_to_product_def find_one_def ObjectId_def hex_digit_def
  lower_def

subsection \<open>Orders that name a product that does not exist\<close>




subsection \<open>Orders whose products all exist\<close>



subsection \<open>Malformed product identifiers\<close>




subsection \<open>Orders without items\<close>

text \<open>
  Claim C4, as the code has it. \<^verbatim>\<open>items: List[OrderItem]\<close> admits the empty list and
  the handler has no check of its own: a request without items is accepted, and an order
  with no items and \<^verbatim>\<open>total_amount\<close> 0 is stored and its identifier returned.
\<close>

theorem create_order_empty_items:
  "create_order now new_id (order\<lparr>items := []\<rparr>) db =
     (Inr (JObj [(''id'', JStr (str_oid new_id))]),
      db\<lparr>orders := orders db @
        [\<lparr>user_id = user_id order, items = [], user_address = user_address order,
          timestamp = now, order_total_amount = 0, order_oid = new_id\<rparr>]\<rparr>)"
  by (simp add: create_order_def create_order_try_def except_HTTPException_Exception_def
      insert_one_order_def py_sum_def)

text \<open>The claim as worded promises a rejection and an unchanged orders collection.\<close>

theorem create_order_empty_items_counterexample:
  "items (order_of []) = [] \<and>
   create_order 9 new_oid (order_of []) shop =
     (Inr (JObj [(''id'', JStr ''aaaaaaaaaaaaaaaaaaaaaaaa'')]),
      shop\<lparr>orders :=
        [\<lparr>user_id = ''u1'', items = [], user_address = ''1 Main St'', timestamp = 9,
          order_total_amount = 0, order_oid = new_oid\<rparr>]\<rparr>) \<and>
   orders (snd (create_order 9 new_oid (order_of []) shop)) \<noteq> orders shop"
  by (simp add: example_defs order_defs)

section \<open>Creating products\<close>



section \<open>Listing products and orders\<close>

subsection \<open>What a listing returns\<close>

lemma list_products_eq:
  "list_products rx name' size' limit offset db =
     (if offset < 0 then Inl (HTTPException 500 ''skip must be >= 0'')
      else case compile_filter rx (build_query_filter name' size') of
             Inl e \<Rightarrow> Inl (HTTPException 500 (str_exn e))
           | Inr sel \<Rightarrow>
               Inr (JObj [(''products'',
                     JList (map product_helper
                       (apply_limit limit (drop (nat offset) (filter sel (products db))))))]))"
  by (simp add: list_products_def except_Exception_def cursor_skip_def find_cursor_def
      cursor_limit_def iterate_def split: sum.splits)








subsection \<open>The filters\<close>




subsection \<open>The fields of a returned product\<close>

text \<open>
  Claim C6, as the code has it. Every record that \<^verbatim>\<open>list_products\<close> returns is
  \<^verbatim>\<open>product_helper\<close> of a stored product: it has exactly the keys \<^verbatim>\<open>product_id\<close>,
  \<^verbatim>\<open>name\<close>, \<^verbatim>\<open>price\<close>, \<^verbatim>\<open>description\<close> and \<^verbatim>\<open>sizes\<close>, each with the stored value (the
  whole of \<^verbatim>\<open>sizes\<close> included), and it has no key \<^verbatim>\<open>created_at\<close>.
\<close>

theorem list_products_projection:
  assumes "list_products rx name' size' limit offset db = Inr v"
  shows "\<exists>ps. v = JObj [(''products'', JList (map product_helper ps))] \<and>
              set ps \<subseteq> set (products db) \<and>
              (\<forall>p \<in> set ps.
                 keys (product_helper p) =
                   [''product_id'', ''name'', ''price'', ''description'', ''sizes''] \<and>
                 get (product_helper p) ''product_id'' = Some (JStr (str_oid (product_oid p))) \<and>
                 get (product_helper p) ''name'' = Some (JStr (name p)) \<and>
                 get (product_helper p) ''price'' = Some (JNum (price p)) \<and>
                 get (product_helper p) ''description'' =
                   Some (case description p of None \<Rightarrow> JNull | Some d \<Rightarrow> JStr d) \<and>
                 get (product_helper p) ''sizes'' = Some (JList (map size_json (sizes p))) \<and>
                 get (product_helper p) ''created_at'' = None)"
proof -
  from assms obtain sel where
    v: "v = JObj [(''products'',
              JList (map product_helper
                (apply_limit limit (drop (nat offset) (filter sel (products db))))))]"
    by (auto simp: list_products_eq split: if_splits sum.splits)
  let ?ps = "apply_limit limit (drop (nat offset) (filter sel (products db)))"
  have "set ?ps \<subseteq> set (drop (nat offset) (filter sel (products db)))"
    by (simp add: apply_limit_def set_take_subset)
  also have "\<dots> \<subseteq> set (filter sel (products db))"
    by (rule set_drop_subset)
  finally have "set ?ps \<subseteq> set (products db)" by auto
  with v show ?thesis
    by (intro exI[of _ ?ps]) (simp add: product_helper_def)
qed

theorem list_products_projection_witness:
  "list_products regex_fragment None None 10 0 shop =
     Inr (JObj [(''products'', JList [product_helper tee])]) \<and>
   (\<exists>ps. JObj [(''products'', JList [product_helper tee])] =
            JObj [(''products'', JList (map product_helper ps))] \<and>
          set ps \<subseteq> set (products shop) \<and>
          (\<forall>p \<in> set ps.
             keys (product_helper p) =
               [''product_id'', ''name'', ''price'', ''description'', ''sizes''] \<and>
             get (product_helper p) ''product_id'' = Some (JStr (str_oid (product_oid p))) \<and>
             get (product_helper p) ''name'' = Some (JStr (name p)) \<and>
             get (product_helper p) ''price'' = Some (JNum (price p)) \<and>
             get (product_helper p) ''description'' =
               Some (case description p of None \<Rightarrow> JNull | Some d \<Rightarrow> JStr d) \<and>
             get (product_helper p) ''sizes'' = Some (JList (map size_json (sizes p))) \<and>
             get (product_helper p) ''created_at'' = None))"
proof -
  have c: "list_products regex_fragment None None 10 0 shop =
             Inr (JObj [(''products'', JList [product_helper tee])])"
    by (simp add: list_products_eq compile_filter_def build_query_filter_def truthy_def
        has_size_def apply_limit_def shop_def)
  from list_products_projection[OF c] c show ?thesis by simp
qed

text \<open>
  The claim as worded counts the creation timestamp among the returned fields: the stored
  product has one, the returned record does not.
\<close>

theorem list_products_projection_counterexample:
  "list_products regex_fragment None None 10 0 shop =
     Inr (JObj [(''products'',
           JList [JObj [(''product_id'', JStr ''0123456789abcdef01234567''),
                        (''name'', JStr ''Tee''),
                        (''price'', JNum (1999 / 100)),
                        (''description'', JNull),
                        (''sizes'', JList [JObj [(''size'', JStr ''M''), (''quantity'', JInt 5)]])]])]) \<and>
   products shop = [tee] \<and> created_at tee = 7 \<and>
   get (product_helper tee) ''created_at'' = None \<and>
   \<not> set product_model_fields \<subseteq> set (keys (product_helper tee))"
  by (simp add: list_products_eq compile_filter_def build_query_filter_def truthy_def
      has_size_def apply_limit_def shop_def tee_def product_helper_def size_json_def
      product_model_fields_def)

subsection \<open>A limit of zero\<close>



subsection \<open>Empty filter strings\<close>

text \<open>
  Claim C10. A \<open>name\<close> or a \<open>size\<close> supplied as the empty string is not truthy and adds
  nothing to the query: the call returns what the same call without that parameter
  returns.
\<close>

theorem empty_filter_ignored:
  "list_products rx (Some []) size' limit offset db =
     list_products rx None size' limit offset db \<and>
   list_products rx name' (Some []) limit offset db =
     list_products rx name' None limit offset db"
  by (simp add: list_products_def build_query_filter_def truthy_def)

section \<open>The health probe\<close>


end
